theory Spec2Isabelle
  imports Main
begin

section \<open>The data stream written by a document handler\<close>

text \<open>
  A handler receives a \<open>dataStream\<close> and calls \<open>dataStream.writeData({type, content})\<close>
  on it. The stream is modelled by the list of the data parts written so far, oldest
  first; \<open>writeData\<close> appends one part.
\<close>

record dataPart =
  type :: string
  content :: string

type_synonym dataStreamWriter = "dataPart list"

definition writeData :: "dataStreamWriter \<Rightarrow> dataPart \<Rightarrow> dataStreamWriter" where
  "writeData ds d = ds @ [d]"

text \<open>The parts a call has written: what the stream holds beyond what it held before.\<close>

definition written :: "dataStreamWriter \<Rightarrow> dataStreamWriter \<Rightarrow> dataPart list" where
  "written before after = drop (length before) after"

text \<open>
  The callbacks are \<open>async\<close>: each returns a promise, which is fulfilled with the returned
  value or rejected with what was thrown.
\<close>

datatype 'a promise = Fulfilled 'a | Rejected string

text \<open>
  The argument objects. The callbacks destructure \<open>{ title, dataStream }\<close> and
  \<open>{ description, dataStream }\<close>; whatever else the caller puts in the object (the
  document, the session, an id) is the extension part of the record.
\<close>

record callbackProps =
  dataStream :: dataStreamWriter

record createDocumentCallbackProps = callbackProps +
  title :: string

record updateDocumentCallbackProps = callbackProps +
  description :: string

text \<open>The configuration object passed to \<open>createDocumentHandler\<close>.\<close>

record ('c, 'u) documentHandlerConfig =
  kind :: string
  onCreateDocument :: "'c \<Rightarrow> dataStreamWriter \<times> string promise"
  onUpdateDocument :: "'u \<Rightarrow> dataStreamWriter \<times> string promise"

section \<open>The image handler (artifacts/image/server.ts)\<close>

definition imageDocumentHandler ::
  "('a createDocumentCallbackProps_scheme, 'b updateDocumentCallbackProps_scheme)
     documentHandlerConfig" where
  "imageDocumentHandler = \<lparr>
     kind = ''image'',
     onCreateDocument = (\<lambda>props.
       let errorMsg = ''Image generation is not supported with Anthropic models.'';
           ds = writeData (dataStream props) \<lparr>type = ''image-delta'', content = ''''\<rparr>
       in (ds, Fulfilled errorMsg)),
     onUpdateDocument = (\<lambda>props.
       let errorMsg = ''Image generation is not supported with Anthropic models.'';
           ds = writeData (dataStream props) \<lparr>type = ''image-delta'', content = ''''\<rparr>
       in (ds, Fulfilled errorMsg))
   \<rparr>"

text \<open>
  The shape the specification asks of an unsupported request, in its words: a delta
  sequence of exactly one error-content delta (a delta carrying the explanatory text)
  followed by a terminal \<open>finish\<close> delta.
\<close>

definition spec_unsupported_sequence :: "string \<Rightarrow> dataPart list \<Rightarrow> bool" where
  "spec_unsupported_sequence msg ds =
     (case ds of
        [e, f] \<Rightarrow> content e = msg \<and> type f = ''finish''
      | _ \<Rightarrow> False)"

section \<open>The model provider\<close>

datatype middleware = extractReasoningMiddleware string

text \<open>
  A language model is built by \<open>anthropic(modelId)\<close>, by \<open>wrapLanguageModel\<close>, or is one
  of the four models imported from \<open>./models.test\<close>, whose values are a parameter
  (type \<open>'m\<close>).
\<close>

datatype 'm languageModel =
    anthropic string
  | wrapLanguageModel "'m languageModel" middleware
  | imported 'm

record 'm modelsTest =
  artifactModel :: 'm
  chatModel :: 'm
  reasoningModel :: 'm
  titleModel :: 'm

text \<open>
  \<open>customProvider({ languageModels })\<close>: the provider keeps the object it is given, an
  association list in the order the keys are written; a model is looked up by its key.
\<close>

record 'm provider =
  languageModels :: "(string \<times> 'm languageModel) list"

definition customProvider :: "(string \<times> 'm languageModel) list \<Rightarrow> 'm provider" where
  "customProvider ms = \<lparr>languageModels = ms\<rparr>"

definition selectors :: "'m provider \<Rightarrow> string list" where
  "selectors p = map fst (languageModels p)"

definition languageModel :: "'m provider \<Rightarrow> string \<Rightarrow> 'm languageModel option" where
  "languageModel p modelId = map_of (languageModels p) modelId"

text \<open>
  \<open>myProvider\<close> is a module-level constant. \<open>isTestEnvironment\<close> comes from
  \<open>../constants\<close> and the test models from \<open>./models.test\<close>; both are parameters here.
\<close>

definition myProvider :: "bool \<Rightarrow> 'm modelsTest \<Rightarrow> 'm provider" where
  "myProvider isTestEnvironment t =
     (if isTestEnvironment
      then customProvider
        [(''chat-model'', imported (chatModel t)),
         (''chat-model-reasoning'', imported (reasoningModel t)),
         (''title-model'', imported (titleModel t)),
         (''artifact-model'', imported (artifactModel t))]
      else customProvider
        [(''chat-model'', anthropic ''claude-3-haiku-20240307''),
         (''chat-model-reasoning'',
            wrapLanguageModel (anthropic ''claude-3-sonnet-20240229'')
              (extractReasoningMiddleware ''think'')),
         (''title-model'', anthropic ''claude-3-haiku-20240307''),
         (''artifact-model'', anthropic ''claude-3-haiku-20240307'')])"

section \<open>The resumable stream context\<close>

text \<open>
  No source file implements or calls the Resumable Stream Context, so every definition
  of this section is modelled from the specification's description of the component
  (its sections 3, 4.3, 5 and 6): one context per production run (one stream id), a
  durable append-only log, a set of attached subscribers, four states, and the events
  that drive them. Concurrency is modelled by interleaving: each event is one atomic
  step of the context.
\<close>

text \<open>
  Modelled from the spec: the states \<open>PENDING\<close> (registered, no deltas yet),
  \<open>STREAMING\<close>, \<open>FINISHED\<close> and \<open>ERRORED\<close> of the state machine.
\<close>

datatype streamStatus = PENDING | STREAMING | FINISHED | ERRORED

text \<open>
  Modelled from the spec: the persisted state layout of the delta log, records of
  \<open>(streamId, sequenceNumber, deltaType, deltaPayload)\<close>.
\<close>

record logRecord =
  streamId :: string
  sequenceNumber :: nat
  deltaType :: string
  deltaPayload :: string

text \<open>
  Modelled from the spec: a subscriber (one connection), with what it has observed so
  far and whether it has been given the terminal signal.
\<close>

record subscriber =
  observed :: "dataPart list"
  terminalSignal :: bool

text \<open>
  Modelled from the spec: the context of one stream id, with its state, its persisted
  log and its attached subscribers, keyed by an identifier of the connection.
\<close>

record streamContext =
  ownStreamId :: string
  status :: streamStatus
  deltaLog :: "logRecord list"
  subscribers :: "nat \<rightharpoonup> subscriber"

text \<open>
  Modelled from the spec: the events. The producer pushes a delta; the producer fails
  (an inference error, a stop signal or the inactivity timeout) with a message; a
  subscriber attaches under an identifier with a resume cursor, the last sequence number
  it has observed (\<open>0\<close> for none, "from the start"); a subscriber detaches.
\<close>

datatype streamEvent =
    Push dataPart
  | ProducerError string
  | Attach nat nat
  | Detach nat

text \<open>Modelled from the spec: a registered stream, with no delta and no subscriber.\<close>

definition initContext :: "string \<Rightarrow> streamContext" where
  "initContext sid =
     \<lparr>ownStreamId = sid, status = PENDING, deltaLog = [], subscribers = Map.empty\<rparr>"

text \<open>Modelled from the spec: the terminal states.\<close>

definition isTerminal :: "streamStatus \<Rightarrow> bool" where
  "isTerminal st = (st = FINISHED \<or> st = ERRORED)"

text \<open>Modelled from the spec: the delta a log record holds.\<close>

definition deltaOf :: "logRecord \<Rightarrow> dataPart" where
  "deltaOf r = \<lparr>type = deltaType r, content = deltaPayload r\<rparr>"

text \<open>Modelled from the spec: the terminal error delta of a failed producer.\<close>

definition errorDelta :: "string \<Rightarrow> dataPart" where
  "errorDelta msg = \<lparr>type = ''error'', content = msg\<rparr>"

text \<open>
  Modelled from the spec: persisting a delta appends one record to the log, in arrival
  order, carrying the next sequence number (the first delta has number 1).
\<close>

definition persist :: "string \<Rightarrow> logRecord list \<Rightarrow> dataPart \<Rightarrow> logRecord list" where
  "persist sid lg d =
     lg @ [\<lparr>streamId = sid, sequenceNumber = Suc (length lg),
            deltaType = type d, deltaPayload = content d\<rparr>]"

text \<open>
  Modelled from the spec: replay gives the persisted deltas strictly after the cursor,
  in log order.
\<close>

definition replay :: "logRecord list \<Rightarrow> nat \<Rightarrow> dataPart list" where
  "replay lg c = map deltaOf (filter (\<lambda>r. c < sequenceNumber r) lg)"

text \<open>
  Modelled from the spec: a live subscriber receives a broadcast delta, and the terminal
  signal with the last one.
\<close>

definition deliver :: "dataPart \<Rightarrow> bool \<Rightarrow> subscriber \<Rightarrow> subscriber" where
  "deliver d final s =
     \<lparr>observed = observed s @ [d], terminalSignal = (terminalSignal s \<or> final)\<rparr>"

text \<open>
  Modelled from the spec: emitting a delta persists it, broadcasts it to every attached
  subscriber and moves the context to the given state; a terminal state also signals
  the subscribers.
\<close>

definition emit :: "streamContext \<Rightarrow> dataPart \<Rightarrow> streamStatus \<Rightarrow> streamContext" where
  "emit ctx d st =
     ctx\<lparr>status := st,
         deltaLog := persist (ownStreamId ctx) (deltaLog ctx) d,
         subscribers := map_option (deliver d (isTerminal st)) \<circ> subscribers ctx\<rparr>"

text \<open>
  Modelled from the spec: the transitions. A pushed delta is emitted and the run is
  \<open>STREAMING\<close>, or \<open>FINISHED\<close> when the delta is \<open>finish\<close>; a producer failure emits
  the terminal error delta and the run is \<open>ERRORED\<close>; a terminated context accepts
  neither. An attaching subscriber is served the replay from its cursor and is live from
  then on (after termination it gets the replay and the terminal signal at once). A
  detaching subscriber is removed, with no effect on the log or on the others.
\<close>

fun step :: "streamEvent \<Rightarrow> streamContext \<Rightarrow> streamContext" where
  "step (Push d) ctx =
     (if isTerminal (status ctx) then ctx
      else emit ctx d (if type d = ''finish'' then FINISHED else STREAMING))"
| "step (ProducerError msg) ctx =
     (if isTerminal (status ctx) then ctx
      else emit ctx (errorDelta msg) ERRORED)"
| "step (Attach k c) ctx =
     ctx\<lparr>subscribers := (subscribers ctx)
           (k \<mapsto> \<lparr>observed = replay (deltaLog ctx) c,
                  terminalSignal = isTerminal (status ctx)\<rparr>)\<rparr>"
| "step (Detach k) ctx = ctx\<lparr>subscribers := (subscribers ctx)(k := None)\<rparr>"

text \<open>Modelled from the spec: the context after a sequence of events.\<close>

fun run :: "streamEvent list \<Rightarrow> streamContext \<Rightarrow> streamContext" where
  "run [] ctx = ctx"
| "run (e # es) ctx = run es (step e ctx)"

text \<open>
  Modelled from the spec: the delta sequence \<open>D\<close> of a production run, read off the
  producer's events alone: the deltas pushed, up to and including the first \<open>finish\<close>,
  or the terminal error delta of the first failure.
\<close>

fun produced :: "streamEvent list \<Rightarrow> dataPart list" where
  "produced [] = []"
| "produced (Push d # es) = d # (if type d = ''finish'' then [] else produced es)"
| "produced (ProducerError msg # es) = [errorDelta msg]"
| "produced (Attach k c # es) = produced es"
| "produced (Detach k # es) = produced es"

text \<open>
  Modelled from the spec: whether an event list attaches or detaches the subscriber
  identifier \<open>k\<close>.
\<close>

fun mentions :: "nat \<Rightarrow> streamEvent list \<Rightarrow> bool" where
  "mentions k [] = False"
| "mentions k (Attach j c # es) = (j = k \<or> mentions k es)"
| "mentions k (Detach j # es) = (j = k \<or> mentions k es)"
| "mentions k (e # es) = mentions k es"

text \<open>Modelled from the spec: what the subscriber \<open>k\<close> has observed, if attached.\<close>

definition observedBy :: "streamContext \<Rightarrow> nat \<Rightarrow> dataPart list option" where
  "observedBy ctx k = map_option observed (subscribers ctx k)"

text \<open>Modelled from the spec: the deltas of the persisted log, in log order.\<close>

definition deltas :: "streamContext \<Rightarrow> dataPart list" where
  "deltas ctx = map deltaOf (deltaLog ctx)"

text \<open>
  Modelled from the spec: the log's sequence numbers are \<open>1, 2, ...\<close> in order, hence
  unique within the stream.
\<close>

definition numbered :: "logRecord list \<Rightarrow> bool" where
  "numbered lg = (map sequenceNumber lg = [1..<Suc (length lg)])"

text \<open>
  Modelled from the spec: the subscriber \<open>k\<close> is attached and has observed exactly the
  log from the cursor \<open>c\<close> on, with the terminal signal when the run has terminated.
\<close>

definition viewFrom :: "nat \<Rightarrow> streamContext \<Rightarrow> nat \<Rightarrow> bool" where
  "viewFrom c ctx k =
     (case subscribers ctx k of
        None \<Rightarrow> False
      | Some sub \<Rightarrow> observed sub = drop c (deltas ctx) \<and> c \<le> length (deltaLog ctx)
          \<and> terminalSignal sub = isTerminal (status ctx))"

section \<open>Properties of the image handler\<close>

lemma written_writeData: "written ds (writeData ds d) = [d]"
  by (simp add: written_def writeData_def)

lemma image_create:
  "onCreateDocument imageDocumentHandler p =
     (writeData (dataStream p) \<lparr>type = ''image-delta'', content = ''''\<rparr>,
      Fulfilled ''Image generation is not supported with Anthropic models.'')"
  by (simp add: imageDocumentHandler_def)

lemma image_update:
  "onUpdateDocument imageDocumentHandler p =
     (writeData (dataStream p) \<lparr>type = ''image-delta'', content = ''''\<rparr>,
      Fulfilled ''Image generation is not supported with Anthropic models.'')"
  by (simp add: imageDocumentHandler_def)

text \<open>
  C1, as stated, fails: for the creation request with title \<open>A cat\<close> on an empty stream,
  the deltas the handler writes are not one error-content delta followed by a \<open>finish\<close>
  delta.
\<close>

theorem image_unsupported_sequence_counterexample:
  "\<not> spec_unsupported_sequence ''Image generation is not supported with Anthropic models.''
       (written [] (fst (onCreateDocument imageDocumentHandler
          \<lparr>dataStream = [], title = ''A cat''\<rparr>)))"
  by (simp add: image_create written_writeData spec_unsupported_sequence_def)

text \<open>
  C1, amended: for every image creation and every image update request, the handler
  writes exactly one delta, of type \<open>image-delta\<close> and with empty content, and no
  \<open>finish\<close> delta; its promise is fulfilled with the explanatory error text, never
  rejected.
\<close>

theorem image_unsupported_request:
  "written (dataStream pc) (fst (onCreateDocument imageDocumentHandler pc)) =
     [\<lparr>type = ''image-delta'', content = ''''\<rparr>]
   \<and> snd (onCreateDocument imageDocumentHandler pc) =
     Fulfilled ''Image generation is not supported with Anthropic models.''
   \<and> written (dataStream pu) (fst (onUpdateDocument imageDocumentHandler pu)) =
     [\<lparr>type = ''image-delta'', content = ''''\<rparr>]
   \<and> snd (onUpdateDocument imageDocumentHandler pu) =
     Fulfilled ''Image generation is not supported with Anthropic models.''"
  by (simp add: image_create image_update written_writeData)

text \<open>
  C2: every call of the image handler's \<open>onCreateDocument\<close> ends with the full document
  content being the explanatory error text; the promise is fulfilled with it, not
  rejected.
\<close>

theorem image_create_content:
  "snd (onCreateDocument imageDocumentHandler p) =
     Fulfilled ''Image generation is not supported with Anthropic models.''"
  by (simp add: image_create)

text \<open>
  C3: for every input, the image handler's \<open>onUpdateDocument\<close> streams the way
  \<open>onCreateDocument\<close> does. Each appends exactly one delta to the stream it is given,
  of type \<open>image-delta\<close> and with empty content, and leaves what the stream held
  before as it was; the deltas an update writes are those a creation writes; and each
  is fulfilled with its full content, the same text for an update as for a creation
  (the explanatory text: the handler revises nothing for this provider).
\<close>

theorem image_update_streams_like_create:
  "fst (onUpdateDocument imageDocumentHandler pu) =
     dataStream pu @ [\<lparr>type = ''image-delta'', content = ''''\<rparr>]
   \<and> fst (onCreateDocument imageDocumentHandler pc) =
     dataStream pc @ [\<lparr>type = ''image-delta'', content = ''''\<rparr>]
   \<and> written (dataStream pu) (fst (onUpdateDocument imageDocumentHandler pu)) =
     [\<lparr>type = ''image-delta'', content = ''''\<rparr>]
   \<and> written (dataStream pu) (fst (onUpdateDocument imageDocumentHandler pu)) =
     written (dataStream pc) (fst (onCreateDocument imageDocumentHandler pc))
   \<and> snd (onUpdateDocument imageDocumentHandler pu) =
     Fulfilled ''Image generation is not supported with Anthropic models.''
   \<and> snd (onUpdateDocument imageDocumentHandler pu) =
     snd (onCreateDocument imageDocumentHandler pc)"
  by (simp add: image_create image_update written_def writeData_def)

text \<open>
  C8: \<open>onCreateDocument\<close> and \<open>onUpdateDocument\<close> of the image handler are constant:
  any two calls write the same deltas and are fulfilled with the same content, whatever
  the titles, the descriptions and the other fields of their arguments.
\<close>

theorem image_handler_constant:
  "written (dataStream p1) (fst (onCreateDocument imageDocumentHandler p1)) =
     written (dataStream p2) (fst (onCreateDocument imageDocumentHandler p2))
   \<and> snd (onCreateDocument imageDocumentHandler p1) =
     snd (onCreateDocument imageDocumentHandler p2)
   \<and> written (dataStream q1) (fst (onUpdateDocument imageDocumentHandler q1)) =
     written (dataStream q2) (fst (onUpdateDocument imageDocumentHandler q2))
   \<and> snd (onUpdateDocument imageDocumentHandler q1) =
     snd (onUpdateDocument imageDocumentHandler q2)"
  by (simp add: image_create image_update written_writeData)

text \<open>
  C9: every delta the image handler writes has the empty string as content; the
  explanatory error message is the returned document content only, and is the content
  of no written delta.
\<close>

theorem image_delta_content_empty:
  "(\<forall>d \<in> set (written (dataStream pc) (fst (onCreateDocument imageDocumentHandler pc))).
       content d = ''''
       \<and> content d \<noteq> ''Image generation is not supported with Anthropic models.'')
   \<and> (\<forall>d \<in> set (written (dataStream pu) (fst (onUpdateDocument imageDocumentHandler pu))).
       content d = ''''
       \<and> content d \<noteq> ''Image generation is not supported with Anthropic models.'')
   \<and> snd (onCreateDocument imageDocumentHandler pc) =
       Fulfilled ''Image generation is not supported with Anthropic models.''
   \<and> snd (onUpdateDocument imageDocumentHandler pu) =
       Fulfilled ''Image generation is not supported with Anthropic models.''"
  by (simp add: image_create image_update written_writeData)

theorem image_delta_content_empty_witness:
  "\<lparr>type = ''image-delta'', content = ''''\<rparr>
     \<in> set (written [\<lparr>type = ''kind'', content = ''image''\<rparr>]
          (fst (onCreateDocument imageDocumentHandler
           \<lparr>dataStream = [\<lparr>type = ''kind'', content = ''image''\<rparr>], title = ''A cat''\<rparr>)))
   \<and> \<lparr>type = ''image-delta'', content = ''''\<rparr>
     \<in> set (written [] (fst (onUpdateDocument imageDocumentHandler
           \<lparr>dataStream = [], description = ''add a hat''\<rparr>)))
   \<and> content \<lparr>type = ''image-delta'', content = ''''\<rparr> = ''''"
  using image_delta_content_empty
      [of "\<lparr>dataStream = [\<lparr>type = ''kind'', content = ''image''\<rparr>], title = ''A cat''\<rparr>"
      "\<lparr>dataStream = [], description = ''add a hat''\<rparr>"]
  by (simp add: image_create image_update written_writeData)

section \<open>Properties of the model provider\<close>

text \<open>
  C10: \<open>myProvider\<close> has exactly the four selectors \<open>chat-model\<close>,
  \<open>chat-model-reasoning\<close>, \<open>title-model\<close> and \<open>artifact-model\<close>, the same in the test
  and in the production configuration; which configuration it is depends on the
  \<open>isTestEnvironment\<close> flag alone (the production one not even on the test models), and
  a selector resolves in one configuration exactly when it resolves in the other.
\<close>

theorem myProvider_selectors:
  "set (selectors (myProvider isTestEnvironment t)) =
     {''chat-model'', ''chat-model-reasoning'', ''title-model'', ''artifact-model''}
   \<and> distinct (selectors (myProvider isTestEnvironment t))
   \<and> selectors (myProvider True t) = selectors (myProvider False t')
   \<and> myProvider False t = myProvider False t'
   \<and> (languageModel (myProvider True t) modelId = None) =
       (languageModel (myProvider False t') modelId = None)"
  by (simp add: myProvider_def customProvider_def selectors_def languageModel_def)

section \<open>Properties of the resumable stream context\<close>

lemma numbered_persist: "numbered lg \<Longrightarrow> numbered (persist sid lg d)"
  by (simp add: numbered_def persist_def)

lemma deltaOf_persist: "map deltaOf (persist sid lg d) = map deltaOf lg @ [d]"
  by (simp add: persist_def deltaOf_def)

lemma length_persist: "length (persist sid lg d) = Suc (length lg)"
  by (simp add: persist_def)

lemma replay_drop: "numbered lg \<Longrightarrow> replay lg c = drop c (map deltaOf lg)"
proof (induction lg rule: rev_induct)
  case Nil
  then show ?case by (simp add: replay_def)
next
  case (snoc r lg)
  from snoc.prems have n: "numbered lg" and sq: "sequenceNumber r = Suc (length lg)"
    by (simp_all add: numbered_def)
  with snoc.IH have "replay lg c = drop c (map deltaOf lg)" by simp
  then show ?case using sq by (auto simp: replay_def)
qed

lemma emit_simps:
  "status (emit ctx d st) = st"
  "deltaLog (emit ctx d st) = persist (ownStreamId ctx) (deltaLog ctx) d"
  "subscribers (emit ctx d st) k = map_option (deliver d (isTerminal st)) (subscribers ctx k)"
  "ownStreamId (emit ctx d st) = ownStreamId ctx"
  by (simp_all add: emit_def)

lemma deltas_simps:
  "deltas (emit ctx d st) = deltas ctx @ [d]"
  "deltas (ctx\<lparr>subscribers := m\<rparr>) = deltas ctx"
  by (simp_all add: deltas_def emit_simps deltaOf_persist)

lemma step_numbered: "numbered (deltaLog ctx) \<Longrightarrow> numbered (deltaLog (step e ctx))"
  by (cases e) (simp_all add: emit_simps numbered_persist)

lemma run_numbered: "numbered (deltaLog ctx) \<Longrightarrow> numbered (deltaLog (run es ctx))"
  by (induction es arbitrary: ctx) (simp_all add: step_numbered)

lemma init_numbered: "numbered (deltaLog (initContext sid))"
  by (simp add: initContext_def numbered_def)

lemma step_terminal:
  "isTerminal (status ctx) \<Longrightarrow>
     status (step e ctx) = status ctx \<and> deltaLog (step e ctx) = deltaLog ctx"
  by (cases e) simp_all

lemma run_terminal:
  "isTerminal (status ctx) \<Longrightarrow>
     status (run es ctx) = status ctx \<and> deltaLog (run es ctx) = deltaLog ctx"
proof (induction es arbitrary: ctx)
  case Nil
  show ?case by simp
next
  case (Cons e es)
  from Cons.prems have st: "status (step e ctx) = status ctx"
    and lg: "deltaLog (step e ctx) = deltaLog ctx"
    by (simp_all add: step_terminal)
  from Cons.prems st have "isTerminal (status (step e ctx))" by simp
  from Cons.IH [OF this] show ?case by (simp add: st lg)
qed

lemma run_deltas:
  "deltas (run es ctx) =
     deltas ctx @ (if isTerminal (status ctx) then [] else produced es)"
proof (induction es arbitrary: ctx)
  case Nil
  show ?case by simp
next
  case (Cons e es)
  show ?case
  proof (cases "isTerminal (status ctx)")
    case True
    then show ?thesis using run_terminal [of ctx "e # es"] by (simp add: deltas_def)
  next
    case False
    then show ?thesis
      by (cases e)
        (simp_all add: Cons.IH deltas_simps emit_simps isTerminal_def)
  qed
qed

lemma step_viewFrom:
  assumes "viewFrom c ctx k" and "\<not> mentions k [e]"
  shows "viewFrom c (step e ctx) k"
proof (cases "isTerminal (status ctx)")
  case True
  with assms show ?thesis
    by (cases e) (auto simp: viewFrom_def deltas_def split: option.splits)
next
  case False
  with assms show ?thesis
    by (cases e)
      (auto simp: viewFrom_def deltas_def emit_simps deltaOf_persist length_persist
        deliver_def split: option.splits)
qed

lemma run_viewFrom:
  "viewFrom c ctx k \<Longrightarrow> \<not> mentions k es \<Longrightarrow> viewFrom c (run es ctx) k"
proof (induction es arbitrary: ctx)
  case Nil
  then show ?case by simp
next
  case (Cons e es)
  from Cons.prems(2) have a: "\<not> mentions k [e]" and b: "\<not> mentions k es"
    by (cases e; simp)+
  from step_viewFrom [OF Cons.prems(1) a] b show ?case by (simp add: Cons.IH)
qed

lemma attach_viewFrom:
  "numbered (deltaLog ctx) \<Longrightarrow> c \<le> length (deltaLog ctx) \<Longrightarrow>
     viewFrom c (step (Attach k c) ctx) k"
  by (simp add: viewFrom_def replay_drop deltas_def)

lemma run_append: "run (es @ fs) ctx = run fs (run es ctx)"
  by (induction es arbitrary: ctx) simp_all

lemma init_run_deltas: "deltas (run es (initContext sid)) = produced es"
  by (simp add: run_deltas) (simp add: initContext_def deltas_def isTerminal_def)

lemma viewFrom_observedBy:
  "viewFrom c ctx k \<Longrightarrow> observedBy ctx k = Some (drop c (deltas ctx))"
  by (simp add: viewFrom_def observedBy_def split: option.splits)

text \<open>
  C5: the replay of the persisted log of a run from cursor 0 is the run's delta
  sequence, the same payloads in the same order, with the sequence numbers
  \<open>1, 2, ...\<close>; and a subscriber attached from cursor 0 at any moment of the run, before
  or after its end, has observed exactly that sequence, as long as it stays attached.
\<close>

theorem replay_from_start_reproduces_run:
  "replay (deltaLog (run es (initContext sid))) 0 = produced es
   \<and> map sequenceNumber (deltaLog (run es (initContext sid))) =
       [1..<Suc (length (produced es))]
   \<and> (\<not> mentions k fs \<longrightarrow>
        observedBy (run (es @ Attach k 0 # fs) (initContext sid)) k =
          Some (produced (es @ Attach k 0 # fs)))"
proof (intro conjI impI)
  have n: "numbered (deltaLog (run es (initContext sid)))"
    by (rule run_numbered [OF init_numbered])
  have d: "map deltaOf (deltaLog (run es (initContext sid))) = produced es"
    using init_run_deltas [of es sid] by (simp add: deltas_def)
  show "replay (deltaLog (run es (initContext sid))) 0 = produced es"
    by (simp add: replay_drop [OF n] d)
  have "length (deltaLog (run es (initContext sid))) = length (produced es)"
    using arg_cong [OF d, of length] by simp
  with n show "map sequenceNumber (deltaLog (run es (initContext sid))) =
       [1..<Suc (length (produced es))]"
    by (simp add: numbered_def)
  assume m: "\<not> mentions k fs"
  have "viewFrom 0 (step (Attach k 0) (run es (initContext sid))) k"
    by (rule attach_viewFrom [OF n]) simp
  from run_viewFrom [OF this m]
  have "viewFrom 0 (run (es @ Attach k 0 # fs) (initContext sid)) k"
    by (simp add: run_append)
  from viewFrom_observedBy [OF this]
  show "observedBy (run (es @ Attach k 0 # fs) (initContext sid)) k =
          Some (produced (es @ Attach k 0 # fs))"
    by (simp add: init_run_deltas)
qed

theorem replay_from_start_reproduces_run_witness:
  "\<not> mentions 1 [Push \<lparr>type = ''text-delta'', content = ''Hello''\<rparr>,
                 Push \<lparr>type = ''finish'', content = ''''\<rparr>]
   \<and> observedBy (run ([Push \<lparr>type = ''id'', content = ''D1''\<rparr>] @ Attach 1 0 #
        [Push \<lparr>type = ''text-delta'', content = ''Hello''\<rparr>,
         Push \<lparr>type = ''finish'', content = ''''\<rparr>]) (initContext ''S1'')) 1 =
     Some [\<lparr>type = ''id'', content = ''D1''\<rparr>,
           \<lparr>type = ''text-delta'', content = ''Hello''\<rparr>,
           \<lparr>type = ''finish'', content = ''''\<rparr>]"
proof -
  let ?es = "[Push \<lparr>type = ''id'', content = ''D1''\<rparr>]"
  let ?fs = "[Push \<lparr>type = ''text-delta'', content = ''Hello''\<rparr>,
              Push \<lparr>type = ''finish'', content = ''''\<rparr>]"
  have m: "\<not> mentions 1 ?fs"
    by simp
  have p: "produced (?es @ Attach 1 0 # ?fs) =
      [\<lparr>type = ''id'', content = ''D1''\<rparr>,
       \<lparr>type = ''text-delta'', content = ''Hello''\<rparr>,
       \<lparr>type = ''finish'', content = ''''\<rparr>]"
    by simp
  from replay_from_start_reproduces_run [of ?es "''S1''" 1 ?fs] m
  have "observedBy (run (?es @ Attach 1 0 # ?fs) (initContext ''S1'')) 1 =
      Some (produced (?es @ Attach 1 0 # ?fs))"
    by blast
  with m p show ?thesis
    by (simp only: simp_thms)
qed

text \<open>
  C6: a subscriber \<open>k\<close> resuming from a cursor \<open>c\<close> within the sequence \<open>D\<close> produced
  so far observes, as long as it stays attached, the run's sequence from \<open>c\<close> on: that
  is \<open>D[c:]\<close> followed by the deltas produced after \<open>D\<close>, which are exactly what a
  fresh subscriber \<open>j\<close> attached at the end of \<open>D\<close> observes; nothing is repeated and
  nothing is missing where the two parts meet.
\<close>

theorem resume_from_cursor:
  assumes c: "c \<le> length (produced es)"
    and kj: "k \<noteq> j"
    and mk: "\<not> mentions k fs"
    and mj: "\<not> mentions j fs"
  shows "observedBy
           (run (es @ Attach k c # Attach j (length (produced es)) # fs) (initContext sid)) k =
         Some (drop c (produced (es @ Attach k c # Attach j (length (produced es)) # fs)))
       \<and> observedBy
           (run (es @ Attach k c # Attach j (length (produced es)) # fs) (initContext sid)) j =
         Some (drop (length (produced es))
                 (produced (es @ Attach k c # Attach j (length (produced es)) # fs)))
       \<and> drop c (produced (es @ Attach k c # Attach j (length (produced es)) # fs)) =
         drop c (produced es) @
         drop (length (produced es))
           (produced (es @ Attach k c # Attach j (length (produced es)) # fs))
       \<and> take (length (produced es))
           (produced (es @ Attach k c # Attach j (length (produced es)) # fs)) = produced es"
proof -
  let ?n = "length (produced es)"
  let ?all = "es @ Attach k c # Attach j ?n # fs"
  let ?ctx0 = "run es (initContext sid)"
  let ?ctx1 = "step (Attach k c) ?ctx0"
  let ?ctx2 = "step (Attach j ?n) ?ctx1"
  have n0: "numbered (deltaLog ?ctx0)"
    by (rule run_numbered [OF init_numbered])
  have d0: "deltas ?ctx0 = produced es"
    by (rule init_run_deltas)
  have l0: "length (deltaLog ?ctx0) = ?n"
    using arg_cong [OF d0, of length] by (simp add: deltas_def)
  have v1: "viewFrom c ?ctx1 k"
    by (rule attach_viewFrom [OF n0]) (simp add: l0 c)
  have n1: "numbered (deltaLog ?ctx1)"
    by (rule step_numbered [OF n0])
  have l1: "length (deltaLog ?ctx1) = ?n"
    using l0 by simp
  have vj: "viewFrom ?n ?ctx2 j"
    by (rule attach_viewFrom [OF n1]) (simp only: l1 order_refl)
  have vk: "viewFrom c ?ctx2 k"
    by (rule step_viewFrom [OF v1]) (simp add: kj [symmetric])
  have fin: "run ?all (initContext sid) = run fs ?ctx2"
    by (simp add: run_append)
  have da: "deltas (run ?all (initContext sid)) = produced ?all"
    by (rule init_run_deltas)
  have pre: "produced ?all =
      produced es @ (if isTerminal (status ?ctx0) then []
                     else produced (Attach k c # Attach j ?n # fs))"
    using run_deltas [of "Attach k c # Attach j ?n # fs" ?ctx0] da d0
    by (simp only: run_append [symmetric])
  have ok: "observedBy (run ?all (initContext sid)) k = Some (drop c (produced ?all))"
    using viewFrom_observedBy [OF run_viewFrom [OF vk mk]] da by (simp only: fin)
  have oj: "observedBy (run ?all (initContext sid)) j = Some (drop ?n (produced ?all))"
    using viewFrom_observedBy [OF run_viewFrom [OF vj mj]] da by (simp only: fin)
  have sp: "drop c (produced ?all) = drop c (produced es) @ drop ?n (produced ?all)"
    by (subst (1 2) pre) (simp add: c)
  have tk: "take ?n (produced ?all) = produced es"
    by (subst pre) simp
  from ok oj sp tk show ?thesis by blast
qed

theorem resume_from_cursor_witness:
  "(2::nat) \<le> length (produced
       [Push \<lparr>type = ''id'', content = ''D1''\<rparr>, Push \<lparr>type = ''title'', content = ''Notes''\<rparr>, Push \<lparr>type = ''kind'', content = ''text''\<rparr>])
   \<and> (1::nat) \<noteq> 2
   \<and> \<not> mentions 1 [Push \<lparr>type = ''text-delta'', content = ''Hello''\<rparr>, Push \<lparr>type = ''text-delta'', content = '' world''\<rparr>, Push \<lparr>type = ''finish'', content = ''''\<rparr>]
   \<and> \<not> mentions 2 [Push \<lparr>type = ''text-delta'', content = ''Hello''\<rparr>, Push \<lparr>type = ''text-delta'', content = '' world''\<rparr>, Push \<lparr>type = ''finish'', content = ''''\<rparr>]
   \<and> observedBy
        (run ([Push \<lparr>type = ''id'', content = ''D1''\<rparr>, Push \<lparr>type = ''title'', content = ''Notes''\<rparr>, Push \<lparr>type = ''kind'', content = ''text''\<rparr>] @ Attach 1 2 # Attach 2 3 #
              [Push \<lparr>type = ''text-delta'', content = ''Hello''\<rparr>, Push \<lparr>type = ''text-delta'', content = '' world''\<rparr>, Push \<lparr>type = ''finish'', content = ''''\<rparr>]) (initContext ''S1'')) 1 =
      Some [\<lparr>type = ''kind'', content = ''text''\<rparr>, \<lparr>type = ''text-delta'', content = ''Hello''\<rparr>, \<lparr>type = ''text-delta'', content = '' world''\<rparr>, \<lparr>type = ''finish'', content = ''''\<rparr>]
   \<and> observedBy
        (run ([Push \<lparr>type = ''id'', content = ''D1''\<rparr>, Push \<lparr>type = ''title'', content = ''Notes''\<rparr>, Push \<lparr>type = ''kind'', content = ''text''\<rparr>] @ Attach 1 2 # Attach 2 3 #
              [Push \<lparr>type = ''text-delta'', content = ''Hello''\<rparr>, Push \<lparr>type = ''text-delta'', content = '' world''\<rparr>, Push \<lparr>type = ''finish'', content = ''''\<rparr>]) (initContext ''S1'')) 2 =
      Some [\<lparr>type = ''text-delta'', content = ''Hello''\<rparr>, \<lparr>type = ''text-delta'', content = '' world''\<rparr>, \<lparr>type = ''finish'', content = ''''\<rparr>]"
proof -
  let ?es = "[Push \<lparr>type = ''id'', content = ''D1''\<rparr>, Push \<lparr>type = ''title'', content = ''Notes''\<rparr>, Push \<lparr>type = ''kind'', content = ''text''\<rparr>]"
  let ?fs = "[Push \<lparr>type = ''text-delta'', content = ''Hello''\<rparr>, Push \<lparr>type = ''text-delta'', content = '' world''\<rparr>, Push \<lparr>type = ''finish'', content = ''''\<rparr>]"
  have n: "length (produced ?es) = 3"
    by simp
  have c: "(2::nat) \<le> length (produced ?es)"
    by simp
  have kj: "(1::nat) \<noteq> 2"
    by simp
  have mk: "\<not> mentions 1 ?fs"
    by simp
  have mj: "\<not> mentions 2 ?fs"
    by simp
  have p: "produced (?es @ Attach 1 2 # Attach 2 3 # ?fs) =
      [\<lparr>type = ''id'', content = ''D1''\<rparr>, \<lparr>type = ''title'', content = ''Notes''\<rparr>, \<lparr>type = ''kind'', content = ''text''\<rparr>, \<lparr>type = ''text-delta'', content = ''Hello''\<rparr>, \<lparr>type = ''text-delta'', content = '' world''\<rparr>, \<lparr>type = ''finish'', content = ''''\<rparr>]"
    by simp
  have d2: "drop 2 [\<lparr>type = ''id'', content = ''D1''\<rparr>, \<lparr>type = ''title'', content = ''Notes''\<rparr>, \<lparr>type = ''kind'', content = ''text''\<rparr>, \<lparr>type = ''text-delta'', content = ''Hello''\<rparr>, \<lparr>type = ''text-delta'', content = '' world''\<rparr>, \<lparr>type = ''finish'', content = ''''\<rparr>] =
      [\<lparr>type = ''kind'', content = ''text''\<rparr>, \<lparr>type = ''text-delta'', content = ''Hello''\<rparr>, \<lparr>type = ''text-delta'', content = '' world''\<rparr>, \<lparr>type = ''finish'', content = ''''\<rparr>]"
    by simp
  have d3: "drop 3 [\<lparr>type = ''id'', content = ''D1''\<rparr>, \<lparr>type = ''title'', content = ''Notes''\<rparr>, \<lparr>type = ''kind'', content = ''text''\<rparr>, \<lparr>type = ''text-delta'', content = ''Hello''\<rparr>, \<lparr>type = ''text-delta'', content = '' world''\<rparr>, \<lparr>type = ''finish'', content = ''''\<rparr>] =
      [\<lparr>type = ''text-delta'', content = ''Hello''\<rparr>, \<lparr>type = ''text-delta'', content = '' world''\<rparr>, \<lparr>type = ''finish'', content = ''''\<rparr>]"
    by (simp add: numeral_3_eq_3)
  from resume_from_cursor [OF c kj mk mj, of "''S1''"]
  have "observedBy (run (?es @ Attach 1 2 # Attach 2 3 # ?fs) (initContext ''S1'')) 1 =
        Some [\<lparr>type = ''kind'', content = ''text''\<rparr>, \<lparr>type = ''text-delta'', content = ''Hello''\<rparr>, \<lparr>type = ''text-delta'', content = '' world''\<rparr>, \<lparr>type = ''finish'', content = ''''\<rparr>]
      \<and> observedBy (run (?es @ Attach 1 2 # Attach 2 3 # ?fs) (initContext ''S1'')) 2 =
        Some [\<lparr>type = ''text-delta'', content = ''Hello''\<rparr>, \<lparr>type = ''text-delta'', content = '' world''\<rparr>, \<lparr>type = ''finish'', content = ''''\<rparr>]"
    by (simp only: n p d2 d3 simp_thms)
  with c kj mk mj show ?thesis
    by (simp only: simp_thms)
qed

text \<open>
  C7: no transition leaves a terminal state: from a context that is \<open>FINISHED\<close> or
  \<open>ERRORED\<close>, one event and any sequence of events leave the state as it is (and the
  persisted log as well).
\<close>

theorem terminal_states_absorbing:
  assumes "status ctx = FINISHED \<or> status ctx = ERRORED"
  shows "status (step e ctx) = status ctx \<and> status (run es ctx) = status ctx
       \<and> deltaLog (run es ctx) = deltaLog ctx"
  using assms step_terminal [of ctx e] run_terminal [of ctx es]
  by (simp add: isTerminal_def)

theorem terminal_states_absorbing_witness:
  "(status (run [Push \<lparr>type = ''finish'', content = ''''\<rparr>] (initContext ''S1'')) = FINISHED
      \<or> status (run [Push \<lparr>type = ''finish'', content = ''''\<rparr>] (initContext ''S1'')) = ERRORED)
   \<and> status (step (Push \<lparr>type = ''text-delta'', content = ''Hello''\<rparr>) (run [Push \<lparr>type = ''finish'', content = ''''\<rparr>] (initContext ''S1''))) = FINISHED
   \<and> status (run [Push \<lparr>type = ''text-delta'', content = ''Hello''\<rparr>, ProducerError ''stopped'', Attach 1 0, Detach 1]
        (run [Push \<lparr>type = ''finish'', content = ''''\<rparr>] (initContext ''S1''))) = FINISHED"
proof -
  let ?ctx = "run [Push \<lparr>type = ''finish'', content = ''''\<rparr>] (initContext ''S1'')"
  have f: "status ?ctx = FINISHED"
    by (simp add: initContext_def isTerminal_def emit_def)
  then have h: "status ?ctx = FINISHED \<or> status ?ctx = ERRORED"
    by (rule disjI1)
  from terminal_states_absorbing [OF h, of "Push \<lparr>type = ''text-delta'', content = ''Hello''\<rparr>"
      "[Push \<lparr>type = ''text-delta'', content = ''Hello''\<rparr>, ProducerError ''stopped'', Attach 1 0, Detach 1]"] f h
  show ?thesis
    by (simp only: simp_thms)
qed

end
